theory Spec2Isabelle
  imports Main "HOL-Library.Sublist" "HOL-Library.Word"
begin

section \<open>Python values used by compile\_shader.py\<close>

text \<open>
  A Python \<open>str\<close> is a sequence of Unicode code points, a \<open>bytes\<close> object a sequence of
  octets. String literals of the script are written with \<open>lit\<close>, which reads an ASCII literal
  as its code points.
\<close>

type_synonym str = "nat list"
type_synonym bytes = "8 word list"

definition lit :: "string \<Rightarrow> str" where
  "lit s = map of_char s"

text \<open>
  \<open>str.endswith\<close> called with a tuple: true when the string ends with at least one member.
\<close>

definition endswith :: "str \<Rightarrow> str list \<Rightarrow> bool" where
  "endswith s sufs = list_ex (\<lambda>suf. suffix suf s) sufs"

text \<open>The tuple written in the condition of line 21.\<close>

definition shader_suffixes :: "str list" where
  "shader_suffixes =
     [lit ''.vert'', lit ''.frag'', lit ''.comp'', lit ''.geom'', lit ''.tesc'', lit ''.tese'']"

text \<open>
  \<open>bytes.decode()\<close> with its defaults: UTF-8, \<open>errors='strict'\<close>. The result is \<open>None\<close>
  where Python raises \<open>UnicodeDecodeError\<close>: a stray continuation byte, a truncated or
  overlong sequence, a surrogate, or a value above U+10FFFF.
\<close>

definition cont :: "nat \<Rightarrow> bool" where
  "cont b = (0x80 \<le> b \<and> b < 0xC0)"

fun utf8_decode :: "nat list \<Rightarrow> str option" where
  "utf8_decode [] = Some []"
| "utf8_decode (b0 # bs) =
     (if b0 < 0x80 then map_option ((#) b0) (utf8_decode bs)
      else if 0xC2 \<le> b0 \<and> b0 \<le> 0xDF then
        (case bs of
           b1 # r \<Rightarrow>
             if cont b1
             then map_option ((#) ((b0 - 0xC0) * 64 + (b1 - 0x80))) (utf8_decode r)
             else None
         | _ \<Rightarrow> None)
      else if 0xE0 \<le> b0 \<and> b0 \<le> 0xEF then
        (case bs of
           b1 # b2 # r \<Rightarrow>
             if (if b0 = 0xE0 then 0xA0 \<le> b1 \<and> b1 < 0xC0
                 else if b0 = 0xED then 0x80 \<le> b1 \<and> b1 < 0xA0
                 else cont b1) \<and> cont b2
             then map_option
                    ((#) ((b0 - 0xE0) * 4096 + (b1 - 0x80) * 64 + (b2 - 0x80)))
                    (utf8_decode r)
             else None
         | _ \<Rightarrow> None)
      else if 0xF0 \<le> b0 \<and> b0 \<le> 0xF4 then
        (case bs of
           b1 # b2 # b3 # r \<Rightarrow>
             if (if b0 = 0xF0 then 0x90 \<le> b1 \<and> b1 < 0xC0
                 else if b0 = 0xF4 then 0x80 \<le> b1 \<and> b1 < 0x90
                 else cont b1) \<and> cont b2 \<and> cont b3
             then map_option
                    ((#) ((b0 - 0xF0) * 262144 + (b1 - 0x80) * 4096
                          + (b2 - 0x80) * 64 + (b3 - 0x80)))
                    (utf8_decode r)
             else None
         | _ \<Rightarrow> None)
      else None)"

definition bytes_decode :: "bytes \<Rightarrow> str option" where
  "bytes_decode b = utf8_decode (map unat b)"

text \<open>
  \<open>os.path.join\<close> with one component, as \<open>posixpath\<close> defines it: a component that starts
  with the separator replaces the path, otherwise it is appended, after a separator unless
  the path is empty or already ends with one.
\<close>

definition sep :: nat where
  "sep = of_char CHR ''/''"

definition join :: "str \<Rightarrow> str \<Rightarrow> str" where
  "join a b =
     (if b \<noteq> [] \<and> hd b = sep then b
      else if a = [] \<or> last a = sep then a @ b
      else a @ [sep] @ b)"

section \<open>The directory tree and os.walk\<close>

text \<open>
  What \<open>os.walk\<close> sees of the file system. \<open>File\<close> is any entry that is not a directory.
  \<open>Dir\<close> carries the entries in the order \<open>os.scandir\<close> returns them. \<open>Skipped\<close> is an entry
  that \<open>os.walk\<close> names among the directories of its parent but yields nothing for: a
  symbolic link to a directory (\<open>followlinks\<close> is \<open>False\<close>) or a directory whose listing
  fails (\<open>onerror\<close> is \<open>None\<close>, so the error is dropped).
\<close>

datatype fsnode = File | Dir "(str \<times> fsnode) list" | Skipped

fun is_dir :: "fsnode \<Rightarrow> bool" where
  "is_dir File = False"
| "is_dir (Dir es) = True"
| "is_dir Skipped = True"

definition dirnames :: "(str \<times> fsnode) list \<Rightarrow> str list" where
  "dirnames es = map fst (filter (\<lambda>e. is_dir (snd e)) es)"

definition filenames :: "(str \<times> fsnode) list \<Rightarrow> str list" where
  "filenames es = map fst (filter (\<lambda>e. \<not> is_dir (snd e)) es)"

text \<open>
  The triples \<open>(root, dirs, files)\<close> of a top-down walk, in the order the generator yields
  them. A listing that fails (the path is a file, or cannot be read) yields nothing.
\<close>

fun walk :: "str \<Rightarrow> fsnode \<Rightarrow> (str \<times> str list \<times> str list) list"
  and walk_entries :: "str \<Rightarrow> (str \<times> fsnode) list \<Rightarrow> (str \<times> str list \<times> str list) list"
where
  "walk path File = []"
| "walk path Skipped = []"
| "walk path (Dir es) = (path, dirnames es, filenames es) # walk_entries path es"
| "walk_entries path [] = []"
| "walk_entries path ((name, node) # es) =
     walk (join path name) node @ walk_entries path es"

text \<open>
  The file system maps the path handed to \<open>os.walk\<close> to the tree found there, \<open>None\<close> when
  nothing has that name. A missing top directory is a failed listing: nothing is yielded.
\<close>

type_synonym filesystem = "str \<Rightarrow> fsnode option"

definition os_walk :: "filesystem \<Rightarrow> str \<Rightarrow> (str \<times> str list \<times> str list) list" where
  "os_walk fs path = (case fs path of None \<Rightarrow> [] | Some node \<Rightarrow> walk path node)"

section \<open>Processes, console and exceptions\<close>

datatype redirect = PIPE | INHERIT

record popen_args =
  args :: "str list"
  check :: bool
  stdout :: redirect
  stderr :: redirect

text \<open>
  Everything the script does to the outside, in order: a call of \<open>subprocess.run\<close> with its
  arguments, and a call of \<open>print\<close> with its text.
\<close>

datatype event = Spawned popen_args | Printed str

type_synonym trace = "event list"

text \<open>
  What the operating system answers to one request: the child could not be started, or it
  ran until it exited with a return code, having written to its two streams. The answer may
  depend on how many requests came before.
\<close>

datatype os_error = ENOENT | EACCES | EOTHER

datatype proc_outcome = SpawnFailed os_error | Exited int bytes bytes

text \<open>
  What standard output answers to one call of \<open>print\<close>: the text is written (\<open>None\<close>), or
  the call raises because the stream cannot encode the text or has been closed. The answer
  may depend on how many lines were written before.
\<close>

datatype print_error = EncodeError | PipeClosed

record os_env =
  process :: "nat \<Rightarrow> str list \<Rightarrow> proc_outcome"
  console :: "nat \<Rightarrow> str \<Rightarrow> print_error option"

datatype py_exception =
    FileNotFoundError
  | PermissionError
  | OSError
  | CalledProcessError int "bytes option" "bytes option"
  | UnicodeDecodeError
  | UnicodeEncodeError
  | BrokenPipeError
  | AttributeError

type_synonym 'a result = "(py_exception + 'a) \<times> trace"

fun os_exception :: "os_error \<Rightarrow> py_exception" where
  "os_exception ENOENT = FileNotFoundError"
| "os_exception EACCES = PermissionError"
| "os_exception EOTHER = OSError"

fun print_exception :: "print_error \<Rightarrow> py_exception" where
  "print_exception EncodeError = UnicodeEncodeError"
| "print_exception PipeClosed = BrokenPipeError"

fun spawned :: "trace \<Rightarrow> popen_args list" where
  "spawned [] = []"
| "spawned (Spawned r # t) = r # spawned t"
| "spawned (Printed l # t) = spawned t"

fun printed :: "trace \<Rightarrow> str list" where
  "printed [] = []"
| "printed (Spawned r # t) = printed t"
| "printed (Printed l # t) = l # printed t"

definition capture :: "redirect \<Rightarrow> bytes \<Rightarrow> bytes option" where
  "capture r b = (if r = PIPE then Some b else None)"

text \<open>
  \<open>subprocess.run\<close>: starts the child and waits for it. A child that cannot be started
  raises the operating system's error; with \<open>check=True\<close> a return code other than zero
  raises \<open>CalledProcessError\<close>, which carries the streams that were captured.
\<close>

definition subprocess_run ::
  "os_env \<Rightarrow> popen_args \<Rightarrow> trace \<Rightarrow> (int \<times> bytes option \<times> bytes option) result" where
  "subprocess_run env req t =
     (let t' = t @ [Spawned req] in
      case process env (length (spawned t)) (args req) of
        SpawnFailed e \<Rightarrow> (Inl (os_exception e), t')
      | Exited rc out err \<Rightarrow>
          (if check req \<and> rc \<noteq> 0
           then (Inl (CalledProcessError rc (capture (stdout req) out)
                        (capture (stderr req) err)), t')
           else (Inr (rc, capture (stdout req) out, capture (stderr req) err), t')))"

text \<open>
  \<open>print\<close>: the text reaches standard output, or the call raises and nothing is written.
\<close>

definition py_print :: "os_env \<Rightarrow> str \<Rightarrow> trace \<Rightarrow> unit result" where
  "py_print env line t =
     (case console env (length (printed t)) line of
        None \<Rightarrow> (Inr (), t @ [Printed line])
      | Some e \<Rightarrow> (Inl (print_exception e), t))"

section \<open>The script\<close>

definition compile_shader :: "os_env \<Rightarrow> str \<Rightarrow> str \<Rightarrow> trace \<Rightarrow> unit result" where
  "compile_shader env shader_path output_path t =
     (case subprocess_run env
             \<lparr>args = [lit ''glslangValidator'', lit ''-V'', shader_path, lit ''-o'', output_path],
              check = True, stdout = PIPE, stderr = PIPE\<rparr> t of
        (Inr done, t1) \<Rightarrow>
          py_print env (lit ''Compiled '' @ shader_path @ lit '' -> '' @ output_path) t1
      | (Inl (CalledProcessError rc out err), t1) \<Rightarrow>
          (case err of
             None \<Rightarrow> (Inl AttributeError, t1)
           | Some b \<Rightarrow>
               (case bytes_decode b of
                  None \<Rightarrow> (Inl UnicodeDecodeError, t1)
                | Some text \<Rightarrow>
                    py_print env
                      (lit ''Failed to compile '' @ shader_path @ lit '': '' @ text) t1))
      | (Inl e, t1) \<Rightarrow> (Inl e, t1))"

text \<open>The inner loop, over the file names of one triple.\<close>

fun compile_files :: "os_env \<Rightarrow> str \<Rightarrow> str list \<Rightarrow> trace \<Rightarrow> unit result" where
  "compile_files env root [] t = (Inr (), t)"
| "compile_files env root (file # files) t =
     (if endswith file shader_suffixes then
        (let shader_path = join root file;
             output_path = shader_path @ lit ''.spv''
         in case compile_shader env shader_path output_path t of
              (Inl e, t1) \<Rightarrow> (Inl e, t1)
            | (Inr u, t1) \<Rightarrow> compile_files env root files t1)
      else compile_files env root files t)"

text \<open>The outer loop, over the triples of the walk.\<close>

fun compile_triples ::
  "os_env \<Rightarrow> (str \<times> str list \<times> str list) list \<Rightarrow> trace \<Rightarrow> unit result" where
  "compile_triples env [] t = (Inr (), t)"
| "compile_triples env ((root, dirs, files) # ts) t =
     (case compile_files env root files t of
        (Inl e, t1) \<Rightarrow> (Inl e, t1)
      | (Inr u, t1) \<Rightarrow> compile_triples env ts t1)"

definition compile_shaders_in_directory ::
  "os_env \<Rightarrow> filesystem \<Rightarrow> str \<Rightarrow> trace \<Rightarrow> unit result" where
  "compile_shaders_in_directory env fs directory t =
     compile_triples env (os_walk fs directory) t"

text \<open>The script run as a program: nothing has happened yet, and the directory is fixed.\<close>

definition main :: "os_env \<Rightarrow> filesystem \<Rightarrow> unit result" where
  "main env fs = compile_shaders_in_directory env fs (lit ''shader'') []"

section \<open>Notions used to state the properties\<close>

text \<open>
  The request \<open>compile_shader\<close> makes when the loop hands it the path \<open>p\<close>, and the shader
  path named by a request (the third element of its argument vector).
\<close>

definition request_of :: "str \<Rightarrow> popen_args" where
  "request_of p =
     \<lparr>args = [lit ''glslangValidator'', lit ''-V'', p, lit ''-o'', p @ lit ''.spv''],
      check = True, stdout = PIPE, stderr = PIPE\<rparr>"

definition shader_path_of :: "popen_args \<Rightarrow> str" where
  "shader_path_of r = (case args r of [exe, mode, p, flag, out] \<Rightarrow> p | _ \<Rightarrow> [])"

definition output_path_of :: "popen_args \<Rightarrow> str" where
  "output_path_of r = (case args r of [exe, mode, p, flag, out] \<Rightarrow> out | _ \<Rightarrow> [])"

definition passed_paths :: "trace \<Rightarrow> str list" where
  "passed_paths t = map shader_path_of (spawned t)"

text \<open>
  The paths the two loops reach the call of \<open>compile_shader\<close> with, in order, when no call
  raises; and the loop over exactly these paths.
\<close>

fun selected :: "(str \<times> str list \<times> str list) list \<Rightarrow> str list" where
  "selected [] = []"
| "selected ((root, dirs, files) # ts) =
     map (join root) (filter (\<lambda>file. endswith file shader_suffixes) files) @ selected ts"

fun compile_paths :: "os_env \<Rightarrow> str list \<Rightarrow> trace \<Rightarrow> unit result" where
  "compile_paths env [] t = (Inr (), t)"
| "compile_paths env (p # ps) t =
     (case compile_shader env p (p @ lit ''.spv'') t of
        (Inl e, t1) \<Rightarrow> (Inl e, t1)
      | (Inr u, t1) \<Rightarrow> compile_paths env ps t1)"

text \<open>
  The files of a directory tree, at any depth: \<open>tree_file path node p name\<close> says that the
  tree \<open>node\<close> found at \<open>path\<close> holds a file called \<open>name\<close> whose own path is \<open>p\<close>.
\<close>

inductive tree_file :: "str \<Rightarrow> fsnode \<Rightarrow> str \<Rightarrow> str \<Rightarrow> bool" where
  direct: "(name, File) \<in> set es \<Longrightarrow> tree_file path (Dir es) (join path name) name"
| nested: "(d, sub) \<in> set es \<Longrightarrow> tree_file (join path d) sub p name \<Longrightarrow>
           tree_file path (Dir es) p name"

text \<open>
  A file name is recognized when it ends in one of the six shader-stage extensions; the
  shader files of a directory are the files below it, at any depth, with such a name.
\<close>

definition recognized :: "str \<Rightarrow> bool" where
  "recognized name =
     (suffix (lit ''.vert'') name \<or> suffix (lit ''.frag'') name \<or> suffix (lit ''.comp'') name
      \<or> suffix (lit ''.geom'') name \<or> suffix (lit ''.tesc'') name \<or> suffix (lit ''.tese'') name)"

definition shader_files :: "filesystem \<Rightarrow> str \<Rightarrow> str set" where
  "shader_files fs directory =
     {p. \<exists>node name. fs directory = Some node \<and> tree_file directory node p name
                      \<and> recognized name}"





section \<open>Concrete trees and environments\<close>

text \<open>
  The tree of the specification's scenario: \<open>a/x.vert\<close>, \<open>a/b/y.frag\<close> and \<open>a/b/z.txt\<close> below
  the directory \<open>shader\<close>; a second tree with two shaders side by side; and file systems that
  hold one of them, an empty directory, or nothing, under that name.
\<close>

definition scenario_tree :: fsnode where
  "scenario_tree =
     Dir [(lit ''a'', Dir [(lit ''x.vert'', File),
                           (lit ''b'', Dir [(lit ''y.frag'', File), (lit ''z.txt'', File)])])]"

definition pair_tree :: fsnode where
  "pair_tree = Dir [(lit ''a.vert'', File), (lit ''b.frag'', File)]"

definition fs_with :: "fsnode \<Rightarrow> filesystem" where
  "fs_with node path = (if path = lit ''shader'' then Some node else None)"

definition fs_nothing :: filesystem where
  "fs_nothing path = None"

text \<open>
  A tree for the extension test, and one whose first shader has a name that is not valid
  UTF-8 on disk: \<open>os.walk\<close> hands such a name over with the octet \<open>0xFF\<close> as the lone
  surrogate U+DCFF.
\<close>

definition case_tree :: fsnode where
  "case_tree = Dir [(lit ''X.VERT'', File), (lit ''.vert'', File), (lit ''a.tar.vert'', File)]"

definition odd_name_tree :: fsnode where
  "odd_name_tree = Dir [(0xDCFF # lit ''.vert'', File), (lit ''b.frag'', File)]"

text \<open>
  A standard output that encodes as UTF-8: it takes every text but one that holds a
  surrogate code point.
\<close>

definition utf8_console :: "nat \<Rightarrow> str \<Rightarrow> print_error option" where
  "utf8_console k line =
     (if list_ex (\<lambda>c. 0xD800 \<le> c \<and> c \<le> 0xDFFF) line then Some EncodeError else None)"

text \<open>
  Environments, all with that standard output: a compiler that always succeeds; one that
  always exits with status 1 and writes \<open>ERR\<close> to its error stream; one whose error stream
  holds the single octet \<open>0xFF\<close>; and a machine on which the executable is not installed.
\<close>

definition env_ok :: os_env where
  "env_ok = \<lparr>process = (\<lambda>k argv. Exited 0 [] []), console = utf8_console\<rparr>"

definition env_err :: os_env where
  "env_err = \<lparr>process = (\<lambda>k argv. Exited 1 [] [0x45, 0x52, 0x52]), console = utf8_console\<rparr>"

definition env_garbled :: os_env where
  "env_garbled = \<lparr>process = (\<lambda>k argv. Exited 1 [] [0xFF]), console = utf8_console\<rparr>"

definition env_missing :: os_env where
  "env_missing = \<lparr>process = (\<lambda>k argv. SpawnFailed ENOENT), console = utf8_console\<rparr>"

section \<open>The trace of one call of compile\_shader\<close>

lemma spawned_append: "spawned (a @ b) = spawned a @ spawned b"
  by (induction a rule: spawned.induct) auto

lemma printed_append: "printed (a @ b) = printed a @ printed b"
  by (induction a rule: printed.induct) auto

lemma cs_spawn_failed:
  assumes "process env (length (spawned t)) [lit ''glslangValidator'', lit ''-V'', p, lit ''-o'', out] = SpawnFailed e"
  shows "compile_shader env p out t = (Inl (os_exception e),
     t @ [Spawned \<lparr>args = [lit ''glslangValidator'', lit ''-V'', p, lit ''-o'', out],
                         check = True, stdout = PIPE, stderr = PIPE\<rparr>])"
  using assms by (cases e) (simp_all add: compile_shader_def subprocess_run_def)

lemma cs_exit_zero:
  assumes "process env (length (spawned t)) [lit ''glslangValidator'', lit ''-V'', p, lit ''-o'', out] = Exited 0 so se"
    and "console env (length (printed t)) (lit ''Compiled '' @ p @ lit '' -> '' @ out) = None"
  shows "compile_shader env p out t = (Inr (),
     t @ [Spawned \<lparr>args = [lit ''glslangValidator'', lit ''-V'', p, lit ''-o'', out],
                         check = True, stdout = PIPE, stderr = PIPE\<rparr>,
          Printed (lit ''Compiled '' @ p @ lit '' -> '' @ out)])"
  using assms
  by (simp add: compile_shader_def subprocess_run_def py_print_def capture_def printed_append)

lemma cs_exit_zero_mute:
  assumes "process env (length (spawned t)) [lit ''glslangValidator'', lit ''-V'', p, lit ''-o'', out] = Exited 0 so se"
    and "console env (length (printed t)) (lit ''Compiled '' @ p @ lit '' -> '' @ out) = Some pe"
  shows "compile_shader env p out t = (Inl (print_exception pe),
     t @ [Spawned \<lparr>args = [lit ''glslangValidator'', lit ''-V'', p, lit ''-o'', out],
                         check = True, stdout = PIPE, stderr = PIPE\<rparr>])"
  using assms
  by (simp add: compile_shader_def subprocess_run_def py_print_def capture_def printed_append)

lemma cs_exit_nonzero_text:
  assumes "process env (length (spawned t)) [lit ''glslangValidator'', lit ''-V'', p, lit ''-o'', out] = Exited rc so se"
    and "rc \<noteq> 0" and "bytes_decode se = Some txt"
    and "console env (length (printed t))
           (lit ''Failed to compile '' @ p @ lit '': '' @ txt) = None"
  shows "compile_shader env p out t = (Inr (),
     t @ [Spawned \<lparr>args = [lit ''glslangValidator'', lit ''-V'', p, lit ''-o'', out],
                         check = True, stdout = PIPE, stderr = PIPE\<rparr>,
          Printed (lit ''Failed to compile '' @ p @ lit '': '' @ txt)])"
  using assms
  by (simp add: compile_shader_def subprocess_run_def py_print_def capture_def printed_append)

lemma cs_exit_nonzero_text_mute:
  assumes "process env (length (spawned t)) [lit ''glslangValidator'', lit ''-V'', p, lit ''-o'', out] = Exited rc so se"
    and "rc \<noteq> 0" and "bytes_decode se = Some txt"
    and "console env (length (printed t))
           (lit ''Failed to compile '' @ p @ lit '': '' @ txt) = Some pe"
  shows "compile_shader env p out t = (Inl (print_exception pe),
     t @ [Spawned \<lparr>args = [lit ''glslangValidator'', lit ''-V'', p, lit ''-o'', out],
                         check = True, stdout = PIPE, stderr = PIPE\<rparr>])"
  using assms
  by (simp add: compile_shader_def subprocess_run_def py_print_def capture_def printed_append)

lemma cs_exit_nonzero_garbled:
  assumes "process env (length (spawned t)) [lit ''glslangValidator'', lit ''-V'', p, lit ''-o'', out] = Exited rc so se"
    and "rc \<noteq> 0" and "bytes_decode se = None"
  shows "compile_shader env p out t = (Inl UnicodeDecodeError,
     t @ [Spawned \<lparr>args = [lit ''glslangValidator'', lit ''-V'', p, lit ''-o'', out],
                         check = True, stdout = PIPE, stderr = PIPE\<rparr>])"
  using assms by (simp add: compile_shader_def subprocess_run_def capture_def)

lemma cs_trace:
  "(\<exists>l. compile_shader env p out t =
          (Inr (), t @ [Spawned \<lparr>args = [lit ''glslangValidator'', lit ''-V'', p, lit ''-o'', out],
                         check = True, stdout = PIPE, stderr = PIPE\<rparr>, Printed l]))
   \<or> (\<exists>e. compile_shader env p out t =
          (Inl e, t @ [Spawned \<lparr>args = [lit ''glslangValidator'', lit ''-V'', p, lit ''-o'', out],
                         check = True, stdout = PIPE, stderr = PIPE\<rparr>]))"
proof (cases "process env (length (spawned t)) [lit ''glslangValidator'', lit ''-V'', p, lit ''-o'', out]")
  case (SpawnFailed e)
  then show ?thesis by (simp add: cs_spawn_failed)
next
  case (Exited rc so se)
  show ?thesis
  proof (cases "rc = 0")
    case True
    with Exited show ?thesis
      by (cases "console env (length (printed t)) (lit ''Compiled '' @ p @ lit '' -> '' @ out)")
         (simp_all add: cs_exit_zero cs_exit_zero_mute)
  next
    case False
    show ?thesis
    proof (cases "bytes_decode se")
      case None
      with Exited False show ?thesis by (simp add: cs_exit_nonzero_garbled)
    next
      case (Some msg)
      with Exited False show ?thesis
        by (cases "console env (length (printed t)) (lit ''Failed to compile '' @ p @ lit '': '' @ msg)")
           (simp_all add: cs_exit_nonzero_text cs_exit_nonzero_text_mute)
    qed
  qed
qed

lemma cs_spawned:
  "spawned (snd (compile_shader env p out t)) = spawned t @
     [\<lparr>args = [lit ''glslangValidator'', lit ''-V'', p, lit ''-o'', out],
             check = True, stdout = PIPE, stderr = PIPE\<rparr>]"
  using cs_trace [of env p out t] by (auto simp: spawned_append)

section \<open>The loops as one pass over the selected paths\<close>

lemma compile_paths_append:
  "compile_paths env (ps @ qs) t =
     (case compile_paths env ps t of
        (Inl e, t1) \<Rightarrow> (Inl e, t1)
      | (Inr u, t1) \<Rightarrow> compile_paths env qs t1)"
  by (induction ps arbitrary: t) (auto split: prod.splits sum.splits)

lemma compile_files_paths:
  "compile_files env root files t =
     compile_paths env (map (join root) (filter (\<lambda>file. endswith file shader_suffixes) files)) t"
  by (induction files arbitrary: t) (auto split: prod.splits sum.splits simp: Let_def)

lemma compile_triples_paths:
  "compile_triples env ts t = compile_paths env (selected ts) t"
  by (induction ts arbitrary: t rule: selected.induct)
     (auto split: prod.splits sum.splits simp: compile_paths_append compile_files_paths)

lemma compile_paths_spawned:
  "\<exists>k\<le>length ps.
     spawned (snd (compile_paths env ps t)) = spawned t @ map request_of (take k ps)
     \<and> (fst (compile_paths env ps t) = Inr () \<longrightarrow> k = length ps)"
proof (induction ps arbitrary: t)
  case Nil
  then show ?case by simp
next
  case (Cons p ps)
  obtain r t1 where step: "compile_shader env p (p @ lit ''.spv'') t = (r, t1)"
    by (cases "compile_shader env p (p @ lit ''.spv'') t")
  have sp: "spawned t1 = spawned t @ [request_of p]"
    using cs_spawned [of env p "p @ lit ''.spv''" t] step by (simp add: request_of_def)
  show ?case
  proof (cases r)
    case (Inl e)
    with step sp have "spawned (snd (compile_paths env (p # ps) t)) = spawned t @ map request_of (take 1 (p # ps))"
      and "fst (compile_paths env (p # ps) t) \<noteq> Inr ()"
      by simp_all
    then show ?thesis by (intro exI [of _ 1]) simp
  next
    case (Inr u)
    from Cons.IH [of t1] obtain k where k: "k \<le> length ps"
      "spawned (snd (compile_paths env ps t1)) = spawned t1 @ map request_of (take k ps)"
      "fst (compile_paths env ps t1) = Inr () \<longrightarrow> k = length ps"
      by blast
    with step sp Inr show ?thesis
      by (intro exI [of _ "Suc k"]) simp
  qed
qed

lemma compile_paths_first:
  "\<exists>rest. spawned (snd (compile_paths env (p # ps) t)) = spawned t @ request_of p # rest"
proof -
  obtain res t1 where step: "compile_shader env p (p @ lit ''.spv'') t = (res, t1)"
    by (cases "compile_shader env p (p @ lit ''.spv'') t")
  have sp: "spawned t1 = spawned t @ [request_of p]"
    using cs_spawned [of env p "p @ lit ''.spv''" t] step by (simp add: request_of_def)
  show ?thesis
  proof (cases res)
    case (Inl e)
    with step sp show ?thesis by simp
  next
    case (Inr u)
    from compile_paths_spawned [of ps env t1] obtain k where
      "spawned (snd (compile_paths env ps t1)) = spawned t1 @ map request_of (take k ps)"
      by blast
    with step sp Inr show ?thesis by simp
  qed
qed

lemma compile_paths_requests:
  "\<exists>k\<le>length ps.
     (ps \<noteq> [] \<longrightarrow> 0 < k)
     \<and> spawned (snd (compile_paths env ps t)) = spawned t @ map request_of (take k ps)
     \<and> (fst (compile_paths env ps t) = Inr () \<longrightarrow> k = length ps)"
proof -
  from compile_paths_spawned [of ps env t] obtain k where
    k: "k \<le> length ps"
       "spawned (snd (compile_paths env ps t)) = spawned t @ map request_of (take k ps)"
       "fst (compile_paths env ps t) = Inr () \<longrightarrow> k = length ps"
    by blast
  have "0 < k" if "ps \<noteq> []"
  proof (rule ccontr)
    assume "\<not> 0 < k"
    with k(2) have same: "spawned (snd (compile_paths env ps t)) = spawned t" by simp
    from that obtain q qs where "ps = q # qs" by (cases ps) auto
    with compile_paths_first [of env q qs t] same show False by auto
  qed
  with k show ?thesis by blast
qed

lemma shader_path_of_request [simp]: "shader_path_of (request_of p) = p"
  by (simp add: shader_path_of_def request_of_def)

lemma output_path_of_request [simp]: "output_path_of (request_of p) = p @ lit ''.spv''"
  by (simp add: output_path_of_def request_of_def)

text \<open>
  Unfolding the definitions below evaluates the script on a concrete tree and environment.
\<close>

lemmas eval_defs =
  main_def compile_shaders_in_directory_def os_walk_def fs_with_def fs_nothing_def
  scenario_tree_def pair_tree_def dirnames_def filenames_def join_def sep_def lit_def
  endswith_def shader_suffixes_def suffix_to_prefix compile_shader_def subprocess_run_def
  capture_def bytes_decode_def py_print_def cont_def request_of_def
  env_ok_def env_err_def env_garbled_def env_missing_def utf8_console_def
  case_tree_def odd_name_tree_def Let_def

section \<open>The command line and the two reports of compile\_shader\<close>

text \<open>
  C5: every call of \<open>compile_shader\<close> makes exactly one request, whose argument vector is
  the executable name, \<open>-V\<close>, the source path, \<open>-o\<close> and the output path, in that order,
  with both streams of the child captured through pipes. The request is answered before
  anything else happens: \<open>subprocess_run\<close> returns the outcome of the child.
\<close>

theorem compile_shader_fixed_command:
  "spawned (snd (compile_shader env shader_path output_path t)) =
     spawned t @
     [\<lparr>args = [lit ''glslangValidator'', lit ''-V'', shader_path, lit ''-o'', output_path],
       check = True, stdout = PIPE, stderr = PIPE\<rparr>]"
  by (rule cs_spawned)

lemma report_lines_differ:
  "lit ''Failed to compile '' @ p @ lit '': '' @ txt \<noteq> lit ''Compiled '' @ q @ lit '' -> '' @ out"
  by (simp add: lit_def)

text \<open>
  C6, as the script has it: a call of \<open>compile_shader\<close> prints the success line
  \<open>Compiled <source> -> <output>\<close>, and nothing else, exactly when the child exited with
  status zero and standard output took the line. When the child exited with status zero
  and \<open>print\<close> raises, nothing is printed for that file at all, and the exception leaves
  \<open>compile_shader\<close>: the \<open>try\<close> around \<open>print\<close> catches \<open>CalledProcessError\<close> only.
\<close>

theorem success_line_iff_exit_zero_and_printable:
  "((printed (snd (compile_shader env p out t)) = printed t @ [lit ''Compiled '' @ p @ lit '' -> '' @ out])
    = ((\<exists>so se. process env (length (spawned t)) [lit ''glslangValidator'', lit ''-V'', p, lit ''-o'', out] = Exited 0 so se)
       \<and> console env (length (printed t)) (lit ''Compiled '' @ p @ lit '' -> '' @ out) = None))
   \<and> ((\<exists>so se. process env (length (spawned t)) [lit ''glslangValidator'', lit ''-V'', p, lit ''-o'', out] = Exited 0 so se)
        \<and> console env (length (printed t)) (lit ''Compiled '' @ p @ lit '' -> '' @ out) = Some pe
       \<longrightarrow> compile_shader env p out t =
             (Inl (print_exception pe),
              t @ [Spawned \<lparr>args = [lit ''glslangValidator'', lit ''-V'', p, lit ''-o'', out],
                            check = True, stdout = PIPE, stderr = PIPE\<rparr>]))"
proof (cases "process env (length (spawned t)) [lit ''glslangValidator'', lit ''-V'', p, lit ''-o'', out]")
  case (SpawnFailed e)
  then show ?thesis by (simp add: cs_spawn_failed printed_append)
next
  case (Exited rc so se)
  show ?thesis
  proof (cases "rc = 0")
    case True
    with Exited show ?thesis
      by (cases "console env (length (printed t)) (lit ''Compiled '' @ p @ lit '' -> '' @ out)")
         (simp_all add: cs_exit_zero cs_exit_zero_mute printed_append)
  next
    case False
    show ?thesis
    proof (cases "bytes_decode se")
      case None
      with Exited False show ?thesis by (simp add: cs_exit_nonzero_garbled printed_append)
    next
      case (Some msg)
      with Exited False show ?thesis
        by (cases "console env (length (printed t)) (lit ''Failed to compile '' @ p @ lit '': '' @ msg)")
           (simp_all add: cs_exit_nonzero_text cs_exit_nonzero_text_mute printed_append
              report_lines_differ)
    qed
  qed
qed

theorem success_line_iff_exit_zero_and_printable_witness:
  "printed (snd (compile_shader env_ok (lit ''s/a.vert'') (lit ''s/a.vert.spv'') [])) =
     [lit ''Compiled s/a.vert -> s/a.vert.spv'']
   \<and> printed (snd (compile_shader env_err (lit ''s/a.vert'') (lit ''s/a.vert.spv'') [])) \<noteq>
     [lit ''Compiled s/a.vert -> s/a.vert.spv'']
   \<and> compile_shader env_ok (0xDCFF # lit ''.vert'') (0xDCFF # lit ''.vert.spv'') [] =
       (Inl UnicodeEncodeError, [Spawned (request_of (0xDCFF # lit ''.vert''))])"
  using success_line_iff_exit_zero_and_printable
          [of env_ok "lit ''s/a.vert''" "lit ''s/a.vert.spv''" "[]" EncodeError]
        success_line_iff_exit_zero_and_printable
          [of env_err "lit ''s/a.vert''" "lit ''s/a.vert.spv''" "[]" EncodeError]
        success_line_iff_exit_zero_and_printable
          [of env_ok "0xDCFF # lit ''.vert''" "0xDCFF # lit ''.vert.spv''" "[]" EncodeError]
  by (simp add: env_ok_def env_err_def utf8_console_def lit_def request_of_def)

text \<open>
  C6 as stated fails for a shader whose path standard output cannot encode: the compiler
  exits with status zero, \<open>print\<close> raises \<open>UnicodeEncodeError\<close>, and no success line is
  printed.
\<close>

theorem success_line_counterexample:
  "process env_ok 0 (args (request_of (lit ''shader/'' @ 0xDCFF # lit ''.vert''))) = Exited 0 [] []
   \<and> passed_paths (snd (main env_ok (fs_with odd_name_tree))) =
       [lit ''shader/'' @ 0xDCFF # lit ''.vert'']
   \<and> printed (snd (main env_ok (fs_with odd_name_tree))) = []
   \<and> fst (main env_ok (fs_with odd_name_tree)) = Inl UnicodeEncodeError"
  by (simp add: eval_defs passed_paths_def shader_path_of_def)

section \<open>The requests of a whole run\<close>

lemma run_spawned:
  "\<exists>k\<le>length (selected (os_walk fs directory)).
     spawned (snd (compile_shaders_in_directory env fs directory t)) =
       spawned t @ map request_of (take k (selected (os_walk fs directory)))
     \<and> (fst (compile_shaders_in_directory env fs directory t) = Inr ()
          \<longrightarrow> k = length (selected (os_walk fs directory)))"
  unfolding compile_shaders_in_directory_def compile_triples_paths
  by (rule compile_paths_spawned)

lemma passed_paths_requests [simp]: "map (shader_path_of \<circ> request_of) ps = ps"
  by (induction ps) simp_all

lemma run_passed_paths:
  "\<exists>k\<le>length (selected (os_walk fs directory)).
     spawned (snd (compile_shaders_in_directory env fs directory [])) =
       map request_of (take k (selected (os_walk fs directory)))
     \<and> passed_paths (snd (compile_shaders_in_directory env fs directory [])) =
       take k (selected (os_walk fs directory))
     \<and> (fst (compile_shaders_in_directory env fs directory []) = Inr ()
          \<longrightarrow> k = length (selected (os_walk fs directory)))"
proof -
  from run_spawned [of fs directory env "[]"] obtain k where
    k: "k \<le> length (selected (os_walk fs directory))"
    "spawned (snd (compile_shaders_in_directory env fs directory [])) =
       map request_of (take k (selected (os_walk fs directory)))"
    "fst (compile_shaders_in_directory env fs directory []) = Inr ()
       \<longrightarrow> k = length (selected (os_walk fs directory))"
    by auto
  from k(2) have "passed_paths (snd (compile_shaders_in_directory env fs directory [])) =
       take k (selected (os_walk fs directory))"
    by (simp add: passed_paths_def)
  with k show ?thesis by blast
qed

lemma scenario_ok_spawned:
  "spawned (snd (main env_ok (fs_with scenario_tree))) =
     [request_of (lit ''shader/a/x.vert''), request_of (lit ''shader/a/b/y.frag'')]"
  by (simp add: eval_defs)

lemma compile_files_requests:
  "\<exists>k\<le>length (filter (\<lambda>file. endswith file shader_suffixes) files).
     ((filter (\<lambda>file. endswith file shader_suffixes) files) \<noteq> [] \<longrightarrow> 0 < k)
     \<and> spawned (snd (compile_files env root files t)) =
         spawned t @ map (\<lambda>name. request_of (join root name)) (take k (filter (\<lambda>file. endswith file shader_suffixes) files))
     \<and> (fst (compile_files env root files t) = Inr () \<longrightarrow>
          k = length (filter (\<lambda>file. endswith file shader_suffixes) files))"
  using compile_paths_requests [of "map (join root) (filter (\<lambda>file. endswith file shader_suffixes) files)" env t]
  by (simp add: compile_files_paths take_map comp_def)

lemma run_requests:
  "\<exists>k\<le>length (selected (os_walk fs directory)).
     ((selected (os_walk fs directory)) \<noteq> [] \<longrightarrow> 0 < k)
     \<and> spawned (snd (compile_shaders_in_directory env fs directory [])) =
         map request_of (take k (selected (os_walk fs directory)))
     \<and> (fst (compile_shaders_in_directory env fs directory []) = Inr () \<longrightarrow>
          k = length (selected (os_walk fs directory)))"
  using compile_paths_requests [of "selected (os_walk fs directory)" env "[]"]
  by (simp add: compile_shaders_in_directory_def compile_triples_paths)

text \<open>
  C3: the loop body of lines 22 to 24 hands the compiler the path \<open>os.path.join(root, file)\<close>
  itself as the source and that same path with \<open>.spv\<close> appended as the output. For the
  inner loop over the names of one directory and for the whole run alike: the requests
  made are those for an initial part of the matching files, never empty when there is a
  matching file and all of them when the loop returns normally, and each request names the
  joined path as source and the joined path followed by \<open>.spv\<close> as output.
\<close>

theorem output_path_is_source_plus_spv:
  "(\<exists>k\<le>length (filter (\<lambda>file. endswith file shader_suffixes) files).
      ((filter (\<lambda>file. endswith file shader_suffixes) files) \<noteq> [] \<longrightarrow> 0 < k)
      \<and> spawned (snd (compile_files env root files t)) =
          spawned t @
          map (\<lambda>name.
                 \<lparr>args = [lit ''glslangValidator'', lit ''-V'', join root name, lit ''-o'',
                          join root name @ lit ''.spv''],
                  check = True, stdout = PIPE, stderr = PIPE\<rparr>)
            (take k (filter (\<lambda>file. endswith file shader_suffixes) files))
      \<and> (fst (compile_files env root files t) = Inr () \<longrightarrow>
           k = length (filter (\<lambda>file. endswith file shader_suffixes) files)))
   \<and> (\<exists>k\<le>length (selected (os_walk fs directory)).
      ((selected (os_walk fs directory)) \<noteq> [] \<longrightarrow> 0 < k)
      \<and> spawned (snd (compile_shaders_in_directory env fs directory [])) =
          map (\<lambda>p. \<lparr>args = [lit ''glslangValidator'', lit ''-V'', p, lit ''-o'', p @ lit ''.spv''],
                    check = True, stdout = PIPE, stderr = PIPE\<rparr>)
            (take k (selected (os_walk fs directory)))
      \<and> (fst (compile_shaders_in_directory env fs directory []) = Inr () \<longrightarrow>
           k = length (selected (os_walk fs directory))))"
  using compile_files_requests [of files env root t] run_requests [of fs directory env]
  unfolding request_of_def by blast

theorem output_path_is_source_plus_spv_witness:
  "fst (main env_ok (fs_with scenario_tree)) = Inr ()
   \<and> spawned (snd (main env_ok (fs_with scenario_tree))) =
      [\<lparr>args = [lit ''glslangValidator'', lit ''-V'', lit ''shader/a/x.vert'', lit ''-o'',
                lit ''shader/a/x.vert.spv''],
        check = True, stdout = PIPE, stderr = PIPE\<rparr>,
       \<lparr>args = [lit ''glslangValidator'', lit ''-V'', lit ''shader/a/b/y.frag'', lit ''-o'',
                lit ''shader/a/b/y.frag.spv''],
        check = True, stdout = PIPE, stderr = PIPE\<rparr>]
   \<and> spawned (snd (compile_files env_missing (lit ''shader/a/b'')
                     [lit ''y.frag'', lit ''z.txt''] [])) =
      [\<lparr>args = [lit ''glslangValidator'', lit ''-V'', lit ''shader/a/b/y.frag'', lit ''-o'',
                lit ''shader/a/b/y.frag.spv''],
        check = True, stdout = PIPE, stderr = PIPE\<rparr>]"
  using output_path_is_source_plus_spv
          [of "[lit ''y.frag'', lit ''z.txt'']" env_missing "lit ''shader/a/b''" "[]"
              "fs_with scenario_tree" "lit ''shader''"]
        output_path_is_source_plus_spv
          [of "[lit ''y.frag'', lit ''z.txt'']" env_ok "lit ''shader/a/b''" "[]"
              "fs_with scenario_tree" "lit ''shader''"]
  by (simp add: eval_defs)

text \<open>
  C8: within one run, two requests with different shader paths have different output paths.
\<close>

theorem output_path_injective:
  assumes "r1 \<in> set (spawned (snd (compile_shaders_in_directory env fs directory [])))"
    and "r2 \<in> set (spawned (snd (compile_shaders_in_directory env fs directory [])))"
    and "shader_path_of r1 \<noteq> shader_path_of r2"
  shows "output_path_of r1 \<noteq> output_path_of r2"
proof -
  from run_passed_paths [of fs directory env] obtain k where
    sp: "spawned (snd (compile_shaders_in_directory env fs directory [])) =
       map request_of (take k (selected (os_walk fs directory)))"
    by blast
  from assms(1,2) obtain p q where "r1 = request_of p" "r2 = request_of q"
    unfolding sp by auto
  with assms(3) show ?thesis by simp
qed

theorem output_path_injective_witness:
  "request_of (lit ''shader/a/x.vert'') \<in> set (spawned (snd (main env_ok (fs_with scenario_tree))))
   \<and> request_of (lit ''shader/a/b/y.frag'') \<in> set (spawned (snd (main env_ok (fs_with scenario_tree))))
   \<and> output_path_of (request_of (lit ''shader/a/x.vert'')) = lit ''shader/a/x.vert.spv''
   \<and> output_path_of (request_of (lit ''shader/a/b/y.frag'')) = lit ''shader/a/b/y.frag.spv''
   \<and> output_path_of (request_of (lit ''shader/a/x.vert'')) \<noteq>
       output_path_of (request_of (lit ''shader/a/b/y.frag''))"
  using output_path_injective [of "request_of (lit ''shader/a/x.vert'')" env_ok
      "fs_with scenario_tree" "lit ''shader''" "request_of (lit ''shader/a/b/y.frag'')"]
    scenario_ok_spawned
  by (simp add: main_def) (simp add: lit_def)

text \<open>
  C7: when the directory does not exist, or exists and is empty, the run returns normally
  and its trace is unchanged: no request was made and nothing was printed. This holds even
  on a machine without the compiler.
\<close>

theorem empty_or_missing_root_does_nothing:
  assumes "fs directory = None \<or> fs directory = Some (Dir [])"
  shows "compile_shaders_in_directory env fs directory t = (Inr (), t)"
  using assms
  by (auto simp: compile_shaders_in_directory_def os_walk_def dirnames_def filenames_def)

theorem empty_or_missing_root_does_nothing_witness:
  "main env_missing fs_nothing = (Inr (), [])
   \<and> main env_missing (fs_with (Dir [])) = (Inr (), [])"
  using empty_or_missing_root_does_nothing [of fs_nothing "lit ''shader''" env_missing "[]"]
    empty_or_missing_root_does_nothing [of "fs_with (Dir [])" "lit ''shader''" env_missing "[]"]
  by (simp add: main_def fs_nothing_def fs_with_def)

section \<open>Which files the walk selects\<close>

inductive_simps tree_file_File: "tree_file path File p name"
inductive_simps tree_file_Skipped: "tree_file path Skipped p name"
inductive_simps tree_file_Dir: "tree_file path (Dir es) p name"

lemma selected_append: "selected (a @ b) = selected a @ selected b"
  by (induction a rule: selected.induct) simp_all

lemma not_is_dir_iff: "\<not> is_dir node \<longleftrightarrow> node = File"
  by (cases node) simp_all

lemma set_filenames: "set (filenames es) = {name. (name, File) \<in> set es}"
  by (force simp: filenames_def not_is_dir_iff)

lemma set_selected_walk:
  "set (selected (walk path node)) =
     {p. \<exists>name. tree_file path node p name \<and> endswith name shader_suffixes}"
  and set_selected_walk_entries:
  "set (selected (walk_entries path es)) =
     {p. \<exists>d sub name. (d, sub) \<in> set es \<and> tree_file (join path d) sub p name
                      \<and> endswith name shader_suffixes}"
proof (induction path node and path es rule: walk_walk_entries.induct)
  case (1 path)
  show ?case by (simp add: tree_file_File)
next
  case (2 path)
  show ?case by (simp add: tree_file_Skipped)
next
  case (3 path es)
  have "set (selected (walk path (Dir es))) =
      join path ` {name \<in> set (filenames es). endswith name shader_suffixes}
      \<union> set (selected (walk_entries path es))"
    by auto
  also have "\<dots> = {p. \<exists>name. tree_file path (Dir es) p name \<and> endswith name shader_suffixes}"
    unfolding 3 set_filenames tree_file_Dir by blast
  finally show ?case .
next
  case (4 path)
  show ?case by simp
next
  case (5 path name node es)
  show ?case
    unfolding walk_entries.simps selected_append set_append 5 by auto
qed


lemma endswith_recognized: "endswith name shader_suffixes = recognized name"
  by (simp add: endswith_def shader_suffixes_def recognized_def)

lemma shader_files_selected: "shader_files fs directory = set (selected (os_walk fs directory))"
  by (cases "fs directory")
     (auto simp: shader_files_def os_walk_def set_selected_walk endswith_recognized)

lemma scenario_selected:
  "selected (os_walk (fs_with scenario_tree) (lit ''shader'')) =
     [lit ''shader/a/x.vert'', lit ''shader/a/b/y.frag'']"
  by (simp add: eval_defs)

lemma scenario_err_run:
  "main env_err (fs_with scenario_tree) =
     (Inr (),
      [Spawned (request_of (lit ''shader/a/x.vert'')),
       Printed (lit ''Failed to compile shader/a/x.vert: ERR''),
       Spawned (request_of (lit ''shader/a/b/y.frag'')),
       Printed (lit ''Failed to compile shader/a/b/y.frag: ERR'')])"
  by (simp add: eval_defs)

lemma scenario_missing_run:
  "main env_missing (fs_with scenario_tree) =
     (Inl FileNotFoundError, [Spawned (request_of (lit ''shader/a/x.vert''))])"
  by (simp add: eval_defs)

text \<open>
  C1, as the script has it: in every run only shader files of the directory (files at any
  depth whose name ends in one of the six extensions) are passed to \<open>compile_shader\<close>;
  and in every run that returns normally the set of paths passed is exactly the set of
  shader files. A run that an exception ends early has passed only the files before it.
\<close>

theorem passed_files_are_shader_files:
  "set (passed_paths (snd (compile_shaders_in_directory env fs directory [])))
     \<subseteq> shader_files fs directory
   \<and> (fst (compile_shaders_in_directory env fs directory []) = Inr () \<longrightarrow>
        set (passed_paths (snd (compile_shaders_in_directory env fs directory [])))
          = shader_files fs directory)"
proof -
  from run_passed_paths [of fs directory env] obtain k where
    k: "passed_paths (snd (compile_shaders_in_directory env fs directory [])) =
          take k (selected (os_walk fs directory))"
       "fst (compile_shaders_in_directory env fs directory []) = Inr ()
          \<longrightarrow> k = length (selected (os_walk fs directory))"
    by blast
  show ?thesis
    unfolding k(1) shader_files_selected using k(2) by (auto dest: in_set_takeD)
qed

theorem passed_files_are_shader_files_witness:
  "fst (main env_err (fs_with scenario_tree)) = Inr ()
   \<and> set (passed_paths (snd (main env_err (fs_with scenario_tree))))
       = shader_files (fs_with scenario_tree) (lit ''shader'')
   \<and> shader_files (fs_with scenario_tree) (lit ''shader'')
       = {lit ''shader/a/x.vert'', lit ''shader/a/b/y.frag''}"
  using passed_files_are_shader_files [of env_err "fs_with scenario_tree" "lit ''shader''"]
  by (simp add: scenario_err_run [unfolded main_def] main_def shader_files_selected
        scenario_selected)

text \<open>
  C1 as stated fails where the compiler is not installed: in the scenario of the
  specification the run ends at the first shader, and \<open>shader/a/b/y.frag\<close> is never passed.
\<close>

theorem passed_set_counterexample:
  "set (passed_paths (snd (main env_missing (fs_with scenario_tree))))
     \<noteq> shader_files (fs_with scenario_tree) (lit ''shader'')"
proof -
  have "lit ''shader/a/b/y.frag'' \<in> shader_files (fs_with scenario_tree) (lit ''shader'')"
    by (simp add: shader_files_selected scenario_selected)
  moreover have "lit ''shader/a/b/y.frag''
      \<notin> set (passed_paths (snd (main env_missing (fs_with scenario_tree))))"
    by (simp add: scenario_missing_run passed_paths_def) (simp add: lit_def)
  ultimately show ?thesis by blast
qed

section \<open>The extension test\<close>







section \<open>No path is selected twice\<close>








section \<open>One request per selected file, one after the other\<close>









section \<open>Which failures the loop survives\<close>


lemma pair_err_run:
  "main env_err (fs_with pair_tree) =
     (Inr (),
      [Spawned (request_of (lit ''shader/a.vert'')),
       Printed (lit ''Failed to compile shader/a.vert: ERR''),
       Spawned (request_of (lit ''shader/b.frag'')),
       Printed (lit ''Failed to compile shader/b.frag: ERR'')])"
  by (simp add: eval_defs)





text \<open>
  C2 at a compiler that exits with status 1 after writing the single octet \<open>0xFF\<close> to its
  error stream: \<open>decode\<close> raises inside the handler, so no diagnostic is printed, the run
  ends with \<open>UnicodeDecodeError\<close>, and the second shader of the directory is never
  compiled.
\<close>

theorem undecodable_stderr_ends_run:
  "main env_garbled (fs_with pair_tree) =
     (Inl UnicodeDecodeError, [Spawned (request_of (lit ''shader/a.vert''))])
   \<and> shader_files (fs_with pair_tree) (lit ''shader'')
       = {lit ''shader/a.vert'', lit ''shader/b.frag''}"
proof -
  have "selected (os_walk (fs_with pair_tree) (lit ''shader'')) =
          [lit ''shader/a.vert'', lit ''shader/b.frag'']"
    by (simp add: eval_defs)
  moreover have "main env_garbled (fs_with pair_tree) =
     (Inl UnicodeDecodeError, [Spawned (request_of (lit ''shader/a.vert''))])"
    by (simp add: eval_defs)
  ultimately show ?thesis by (simp add: shader_files_selected)
qed

end
